theory Spec2Isabelle
  imports Main "HOL-Library.Word"
begin

section \<open>The dialog bridge of browser/api/atom\_api\_dialog.cc\<close>

text \<open>
  The file binds three script-callable functions (\<open>showMessageBox\<close>,
  \<open>showOpenDialog\<close>, \<open>showSaveDialog\<close>) to the native dialog primitives. Each
  entry point checks the shapes of its positional arguments, coerces them with
  \<open>FromV8Value\<close>, and then either calls the synchronous primitive and returns its
  result, or hands the asynchronous primitive a completion handler bound to the script
  callback.

  The embedding below follows the file function by function. What the file takes from
  the scripting engine and from the native user interface, and cannot be read in it, is
  a parameter (\<open>env\<close>); what the file does to the outside (persistent handles, native
  calls, callback invocations) is an explicit \<open>world\<close> that every effectful function
  takes and returns.
\<close>

subsection \<open>Values of the scripting engine\<close>

type_synonym cint = "32 word" \<comment> \<open>C++ \<open>int\<close>\<close>
type_synonym int64 = "64 word" \<comment> \<open>\<open>int64_t\<close>, the result of \<open>IntegerValue()\<close>\<close>
type_synonym fn = nat \<comment> \<open>the identity of a script function\<close>
type_synonym NativeWindow = nat \<comment> \<open>a non-null \<open>atom::NativeWindow*\<close>\<close>

text \<open>The wrapper object \<open>atom::api::Window\<close>; \<open>window()\<close> is its native window, or NULL.\<close>

datatype Window = Window (window: "NativeWindow option")

text \<open>
  A handle to a script value. A string is the sequence of bytes of its UTF-8 form, the
  form in which this file reads (\<open>String::Utf8Value\<close>) and builds (\<open>String::New\<close>)
  strings. A number is represented by the 64-bit integer that \<open>IntegerValue()\<close> reads
  from it, the only way this file reads a number. An object carries what
  \<open>Window::Unwrap\<close> finds in it: a \<open>Window\<close> wrapper or nothing.
\<close>

datatype v8_value =
    Undefined
  | Null
  | Boolean bool
  | Number int64
  | String string
  | Array "v8_value list"
  | Function fn
  | Object "Window option"

fun IsNumber :: "v8_value \<Rightarrow> bool" where
  "IsNumber (Number n) = True"
| "IsNumber v = False"

fun IsString :: "v8_value \<Rightarrow> bool" where
  "IsString (String s) = True"
| "IsString v = False"

fun IsArray :: "v8_value \<Rightarrow> bool" where
  "IsArray (Array xs) = True"
| "IsArray v = False"

fun IsFunction :: "v8_value \<Rightarrow> bool" where
  "IsFunction (Function f) = True"
| "IsFunction v = False"

text \<open>In the engine arrays and functions are objects too.\<close>

fun IsObject :: "v8_value \<Rightarrow> bool" where
  "IsObject (Object w) = True"
| "IsObject (Array xs) = True"
| "IsObject (Function f) = True"
| "IsObject v = False"

text \<open>
  \<open>v8::Arguments::operator[]\<close>: the i-th argument of the call, \<open>undefined\<close> beyond the
  arguments that were passed.
\<close>

definition arg :: "v8_value list \<Rightarrow> nat \<Rightarrow> v8_value" where
  "arg args i = (if i < length args then args ! i else Undefined)"

text \<open>
  \<open>v8::Handle<v8::Array>::Cast\<close> followed by \<open>Length()\<close> and \<open>Get(i)\<close>: the elements
  of an array. The cast is unchecked; the file performs it only on a value that passed
  \<open>IsArray\<close>, and the second equation is never reached from it.
\<close>

fun Array_elements :: "v8_value \<Rightarrow> v8_value list" where
  "Array_elements (Array xs) = xs"
| "Array_elements v = []"

subsection \<open>The collaborators\<close>

text \<open>
  \<open>base::FilePath\<close>, from the base library: a path holds the bytes it was made
  from (the native path encoding is bytes), without normalization.
\<close>

datatype FilePath = FilePath string

fun FromUTF8Unsafe :: "string \<Rightarrow> FilePath" where
  "FromUTF8Unsafe s = FilePath s"

fun AsUTF8Unsafe :: "FilePath \<Rightarrow> string" where
  "AsUTF8Unsafe (FilePath s) = s"

text \<open>
  What the file calls and does not define: the engine's conversions of a value that is
  not yet of the target type (\<open>ToString\<close> for \<open>Utf8Value\<close>, \<open>ToInteger\<close> for
  \<open>IntegerValue\<close>), the engine's reading of bytes as UTF-8 when it builds a string
  (\<open>FromUtf8\<close>: the UTF-8 form of the string \<open>String::New\<close> makes of the bytes, which
  may differ from them where they are ill-formed), and the three synchronous native
  primitives. A synchronous open or save dialog returns a success flag and fills an
  out-parameter; both are returned here.

  \<open>ToString\<close> is total here. In the engine the conversion of an object can raise (its
  \<open>toString\<close> throws); \<open>*Utf8Value\<close> is then NULL and \<open>operator std::string\<close> builds
  a \<open>std::string\<close> from NULL, which is undefined. The file converts without a shape
  check only the elements of the message box's \<open>buttons\<close>; every statement below about
  \<open>showMessageBox\<close> is about buttons whose conversion succeeds.
\<close>

record env =
  ToString :: "v8_value \<Rightarrow> string"
  FromUtf8 :: "string \<Rightarrow> string"
  ToInteger :: "v8_value \<Rightarrow> int64"
  atom_ShowMessageBox ::
    "NativeWindow option \<Rightarrow> cint \<Rightarrow> string list \<Rightarrow> string \<Rightarrow> string \<Rightarrow> string \<Rightarrow> cint"
  file_dialog_ShowOpenDialog ::
    "NativeWindow option \<Rightarrow> string \<Rightarrow> FilePath \<Rightarrow> cint \<Rightarrow> bool \<times> FilePath list"
  file_dialog_ShowSaveDialog ::
    "NativeWindow option \<Rightarrow> string \<Rightarrow> FilePath \<Rightarrow> bool \<times> FilePath"

definition Utf8Value :: "env \<Rightarrow> v8_value \<Rightarrow> string" where
  "Utf8Value e v = (case v of String s \<Rightarrow> s | _ \<Rightarrow> ToString e v)"

definition IntegerValue :: "env \<Rightarrow> v8_value \<Rightarrow> int64" where
  "IntegerValue e v = (case v of Number n \<Rightarrow> n | _ \<Rightarrow> ToInteger e v)"

text \<open>
  Modelled from the spec: \<open>Window::Unwrap\<close> (browser/api/atom\_api\_window.h) is not in
  the source. The spec resolves an object to the native window reference it carries, or
  to nothing.
\<close>

fun Unwrap :: "v8_value \<Rightarrow> Window option" where
  "Unwrap (Object w) = w"
| "Unwrap v = None"

subsection \<open>FromV8Value: from script values to native values\<close>

text \<open>
  \<open>operator std::string\<close> returns \<open>*v8::String::Utf8Value(value_)\<close>: a \<open>char*\<close>,
  from which the \<open>std::string\<close> is built. The length held by the \<open>Utf8Value\<close> is not
  used, so the string ends before the first NUL byte.
\<close>

definition FromV8Value_string :: "env \<Rightarrow> v8_value \<Rightarrow> string" where
  "FromV8Value_string e v = takeWhile (\<lambda>c. c \<noteq> CHR 0x00) (Utf8Value e v)"

text \<open>\<open>operator int\<close>: the \<open>int64_t\<close> narrowed to \<open>int\<close>.\<close>

definition FromV8Value_int :: "env \<Rightarrow> v8_value \<Rightarrow> cint" where
  "FromV8Value_int e v = ucast (IntegerValue e v)"

definition FromV8Value_FilePath :: "env \<Rightarrow> v8_value \<Rightarrow> FilePath" where
  "FromV8Value_FilePath e v = FromUTF8Unsafe (FromV8Value_string e v)"

definition FromV8Value_NativeWindow :: "v8_value \<Rightarrow> NativeWindow option" where
  "FromV8Value_NativeWindow v =
     (if IsObject v then
        (case Unwrap v of
           Some w \<Rightarrow> (case window w of Some nw \<Rightarrow> Some nw | None \<Rightarrow> None)
         | None \<Rightarrow> None)
      else None)"

subsection \<open>ToV8Value: from native values to script values\<close>

text \<open>\<open>v8::String::New(data, length)\<close>: the string the engine reads from the bytes.\<close>

definition String_New :: "env \<Rightarrow> string \<Rightarrow> v8_value" where
  "String_New e bytes = String (FromUtf8 e bytes)"

definition Integer_New :: "cint \<Rightarrow> v8_value" where
  "Integer_New code = Number (scast code)"

definition ToV8Value_path :: "env \<Rightarrow> FilePath \<Rightarrow> v8_value" where
  "ToV8Value_path e path = String_New e (AsUTF8Unsafe path)"

definition ToV8Value_void :: "unit \<Rightarrow> v8_value" where
  "ToV8Value_void whatever = Undefined"

definition ToV8Value_int :: "cint \<Rightarrow> v8_value" where
  "ToV8Value_int code = Integer_New code"

text \<open>
  The loop \<open>for (i = 0; i < paths.size(); ++i) result->Set(i, ToV8Value(paths[i]))\<close>
  on an array created with \<open>paths.size()\<close> empty slots.
\<close>

function Set_paths :: "env \<Rightarrow> nat \<Rightarrow> FilePath list \<Rightarrow> v8_value list \<Rightarrow> v8_value list" where
  "Set_paths e i paths result =
     (if i < length paths
      then Set_paths e (Suc i) paths (result[i := ToV8Value_path e (paths ! i)])
      else result)"
  by pat_completeness auto
termination
  by (relation "measure (\<lambda>(e, i, paths, result). length paths - i)") auto

declare Set_paths.simps [simp del]

definition ToV8Value_paths :: "env \<Rightarrow> FilePath list \<Rightarrow> v8_value" where
  "ToV8Value_paths e paths = Array (Set_paths e 0 paths (replicate (length paths) Undefined))"

subsection \<open>The world outside the bridge\<close>

text \<open>\<open>v8::Persistent<v8::Function>\<close>: an empty handle, or a handle holding a function.\<close>

type_synonym persistent = "fn option"

definition IsEmpty :: "persistent \<Rightarrow> bool" where
  "IsEmpty callback = (callback = None)"

text \<open>The native argument tuple of each dialog, and what a dialog results in.\<close>

datatype dialog =
    MessageBox "NativeWindow option" cint "string list" string string string
  | OpenDialog "NativeWindow option" string FilePath cint
  | SaveDialog "NativeWindow option" string FilePath

datatype native_result =
    Chosen cint
  | Paths bool "FilePath list"
  | Path bool FilePath

text \<open>
  The completion handlers the file builds with \<open>base::Bind\<close>:
  \<open>base::Bind(&CallV8Function<int>, callback)\<close>,
  \<open>base::Bind(&CallV8Function2<const std::vector<base::FilePath>&>, callback)\<close> and
  \<open>base::Bind(&CallV8Function2<const base::FilePath&>, callback)\<close>.
\<close>

datatype completion =
    Bind_CallV8Function_int persistent
  | Bind_CallV8Function2_paths persistent
  | Bind_CallV8Function2_path persistent

datatype native_call =
    Sync dialog native_result
  | Async dialog

text \<open>
  \<open>handles\<close>: the persistent handles alive; \<open>shown\<close>: the native primitives called,
  in order, a synchronous one with its result; \<open>pending\<close>: the completion handlers
  the native layer holds; \<open>called\<close>: the invocations \<open>callback->Call(callback, argc, argv)\<close>
  made, in order, each with its argument vector.
\<close>

record world =
  handles :: "fn list"
  shown :: "native_call list"
  pending :: "completion list"
  called :: "(fn \<times> v8_value list) list"

definition Persistent_New :: "fn \<Rightarrow> world \<Rightarrow> persistent \<times> world" where
  "Persistent_New f w = (Some f, w\<lparr>handles := f # handles w\<rparr>)"

definition Dispose :: "fn \<Rightarrow> world \<Rightarrow> world" where
  "Dispose f w = w\<lparr>handles := remove1 f (handles w)\<rparr>"

definition Call :: "fn \<Rightarrow> v8_value list \<Rightarrow> world \<Rightarrow> world" where
  "Call f argv w = w\<lparr>called := called w @ [(f, argv)]\<rparr>"

text \<open>
  \<open>operator v8::Persistent<v8::Function>\<close>: a new persistent handle for a function,
  the empty handle for anything else.
\<close>

fun FromV8Value_callback :: "v8_value \<Rightarrow> world \<Rightarrow> persistent \<times> world" where
  "FromV8Value_callback (Function f) w = Persistent_New f w"
| "FromV8Value_callback v w = (None, w)"

text \<open>
  Modelled from the spec: the native primitives (browser/ui/message\_box.h,
  browser/ui/file\_dialog.h) are not in the source. A synchronous primitive shows the
  dialog and returns its result; an asynchronous one shows the dialog, keeps the
  completion handler and returns.
\<close>

definition native_sync :: "dialog \<Rightarrow> native_result \<Rightarrow> world \<Rightarrow> world" where
  "native_sync d r w = w\<lparr>shown := shown w @ [Sync d r]\<rparr>"

definition native_async :: "dialog \<Rightarrow> completion \<Rightarrow> world \<Rightarrow> world" where
  "native_async d c w = w\<lparr>shown := shown w @ [Async d], pending := pending w @ [c]\<rparr>"

subsection \<open>Calling back\<close>

text \<open>
  \<open>template<typename T> CallV8Function\<close>; the overload of \<open>ToV8Value\<close> chosen for
  \<open>T\<close> is the first argument. \<open>DCHECK(!callback.IsEmpty())\<close>: with an empty handle
  there is no result.
\<close>

definition CallV8Function ::
  "('a \<Rightarrow> v8_value) \<Rightarrow> persistent \<Rightarrow> 'a \<Rightarrow> world \<Rightarrow> world option" where
  "CallV8Function ToV8Value callback a w =
     (case callback of
        None \<Rightarrow> None
      | Some f \<Rightarrow> (let val = ToV8Value a in Some (Dispose f (Call f [val] w))))"

definition CallV8Function2 ::
  "('a \<Rightarrow> v8_value) \<Rightarrow> persistent \<Rightarrow> bool \<Rightarrow> 'a \<Rightarrow> world \<Rightarrow> world option" where
  "CallV8Function2 ToV8Value callback result a w =
     (if result then CallV8Function ToV8Value callback a w
      else CallV8Function ToV8Value_void callback () w)"

subsection \<open>The entry points\<close>

datatype error = TypeError string

definition ThrowTypeError :: "string \<Rightarrow> error + v8_value" where
  "ThrowTypeError msg = Inl (TypeError msg)"

text \<open>
  In \<open>ShowMessageBox\<close> the cast \<open>(MessageBoxType)(args[0]->IntegerValue())\<close> goes to
  an enumeration declared in browser/ui/message\_box.h, which is not in the source; the
  dialog kind is kept as the \<open>int\<close> the cast yields. The loop over the buttons appends
  the coercion of each element, in order.
\<close>

definition ShowMessageBox ::
  "env \<Rightarrow> v8_value list \<Rightarrow> world \<Rightarrow> (error + v8_value) \<times> world" where
  "ShowMessageBox e args w =
     (if \<not> IsNumber (arg args 0) \<or>
         \<not> IsArray (arg args 1) \<or>
         \<not> IsString (arg args 2) \<or>
         \<not> IsString (arg args 3) \<or>
         \<not> IsString (arg args 4)
      then (ThrowTypeError ''Bad argument'', w)
      else
        (let native_window = FromV8Value_NativeWindow (arg args 5);
             (callback, w1) = FromV8Value_callback (arg args 6) w;
             box_type = (ucast (IntegerValue e (arg args 0)) :: cint);
             buttons = map (FromV8Value_string e) (Array_elements (arg args 1));
             title = FromV8Value_string e (arg args 2);
             message = FromV8Value_string e (arg args 3);
             detail = FromV8Value_string e (arg args 4)
         in if IsEmpty callback then
              (let chosen =
                     atom_ShowMessageBox e native_window box_type buttons title message detail
               in (Inr (Integer_New chosen),
                   native_sync
                     (MessageBox native_window box_type buttons title message detail)
                     (Chosen chosen) w1))
            else
              (Inr Undefined,
               native_async
                 (MessageBox native_window box_type buttons title message detail)
                 (Bind_CallV8Function_int callback) w1)))"

definition ShowOpenDialog ::
  "env \<Rightarrow> v8_value list \<Rightarrow> world \<Rightarrow> (error + v8_value) \<times> world" where
  "ShowOpenDialog e args w =
     (if \<not> IsString (arg args 0) \<or>
         \<not> IsString (arg args 1) \<or>
         \<not> IsNumber (arg args 2)
      then (ThrowTypeError ''Bad argument'', w)
      else
        (let native_window = FromV8Value_NativeWindow (arg args 3);
             (callback, w1) = FromV8Value_callback (arg args 4) w;
             title = FromV8Value_string e (arg args 0);
             default_path = FromV8Value_FilePath e (arg args 1);
             properties = FromV8Value_int e (arg args 2)
         in if IsEmpty callback then
              (let (ok, paths) =
                     file_dialog_ShowOpenDialog e native_window title default_path properties;
                   w2 = native_sync
                     (OpenDialog native_window title default_path properties)
                     (Paths ok paths) w1
               in if \<not> ok then (Inr Undefined, w2)
                  else
                    (Inr (Array (Set_paths e 0 paths (replicate (length paths) Undefined))),
                     w2))
            else
              (Inr Undefined,
               native_async
                 (OpenDialog native_window title default_path properties)
                 (Bind_CallV8Function2_paths callback) w1)))"

definition ShowSaveDialog ::
  "env \<Rightarrow> v8_value list \<Rightarrow> world \<Rightarrow> (error + v8_value) \<times> world" where
  "ShowSaveDialog e args w =
     (if \<not> IsString (arg args 0) \<or>
         \<not> IsString (arg args 1)
      then (ThrowTypeError ''Bad argument'', w)
      else
        (let native_window = FromV8Value_NativeWindow (arg args 2);
             (callback, w1) = FromV8Value_callback (arg args 3) w;
             title = FromV8Value_string e (arg args 0);
             default_path = FromV8Value_FilePath e (arg args 1)
         in if IsEmpty callback then
              (let (ok, path) =
                     file_dialog_ShowSaveDialog e native_window title default_path;
                   w2 = native_sync
                     (SaveDialog native_window title default_path)
                     (Path ok path) w1
               in if \<not> ok then (Inr Undefined, w2)
                  else (Inr (ToV8Value_path e path), w2))
            else
              (Inr Undefined,
               native_async
                 (SaveDialog native_window title default_path)
                 (Bind_CallV8Function2_path callback) w1)))"

text \<open>
  \<open>Initialize\<close> registers the entry points under their script names
  (\<open>NODE_SET_METHOD\<close>): the function a script reaches under each name.
\<close>

datatype operation = showMessageBox | showOpenDialog | showSaveDialog

fun Initialize ::
  "operation \<Rightarrow> env \<Rightarrow> v8_value list \<Rightarrow> world \<Rightarrow> (error + v8_value) \<times> world" where
  "Initialize showMessageBox = ShowMessageBox"
| "Initialize showOpenDialog = ShowOpenDialog"
| "Initialize showSaveDialog = ShowSaveDialog"

subsection \<open>The native layer completes a dialog\<close>

text \<open>
  Modelled from the spec: the asynchronous native primitives are not in the source. The
  spec has them invoke the completion handler exactly once, on the dialog's result (for
  the file dialogs, with a success flag): the native layer takes a handler it holds and
  runs it. A handler bound for one kind of dialog cannot be run on the result of
  another (the C++ types differ); \<open>Run\<close> has no result there.
\<close>

fun Run :: "env \<Rightarrow> completion \<Rightarrow> native_result \<Rightarrow> world \<Rightarrow> world option" where
  "Run e (Bind_CallV8Function_int callback) (Chosen code) w =
     CallV8Function ToV8Value_int callback code w"
| "Run e (Bind_CallV8Function2_paths callback) (Paths result paths) w =
     CallV8Function2 (ToV8Value_paths e) callback result paths w"
| "Run e (Bind_CallV8Function2_path callback) (Path result path) w =
     CallV8Function2 (ToV8Value_path e) callback result path w"
| "Run e c r w = None"

definition complete :: "env \<Rightarrow> nat \<Rightarrow> native_result \<Rightarrow> world \<Rightarrow> world option" where
  "complete e i r w =
     (if i < length (pending w)
      then Run e (pending w ! i) r
             (w\<lparr>pending := take i (pending w) @ drop (Suc i) (pending w)\<rparr>)
      else None)"

subsection \<open>Notions used in the statements\<close>

text \<open>The shape checks of each entry point, and the position of its callback argument.\<close>

fun validates :: "operation \<Rightarrow> v8_value list \<Rightarrow> bool" where
  "validates showMessageBox args =
     (IsNumber (arg args 0) \<and> IsArray (arg args 1) \<and> IsString (arg args 2) \<and>
      IsString (arg args 3) \<and> IsString (arg args 4))"
| "validates showOpenDialog args =
     (IsString (arg args 0) \<and> IsString (arg args 1) \<and> IsNumber (arg args 2))"
| "validates showSaveDialog args =
     (IsString (arg args 0) \<and> IsString (arg args 1))"

fun window_index :: "operation \<Rightarrow> nat" where
  "window_index showMessageBox = 5"
| "window_index showOpenDialog = 3"
| "window_index showSaveDialog = 2"

fun callback_index :: "operation \<Rightarrow> nat" where
  "callback_index showMessageBox = 6"
| "callback_index showOpenDialog = 4"
| "callback_index showSaveDialog = 3"

text \<open>The native argument tuple an entry point builds from the script arguments.\<close>

fun native_args :: "env \<Rightarrow> operation \<Rightarrow> v8_value list \<Rightarrow> dialog" where
  "native_args e showMessageBox args =
     MessageBox (FromV8Value_NativeWindow (arg args 5))
       (ucast (IntegerValue e (arg args 0)))
       (map (FromV8Value_string e) (Array_elements (arg args 1)))
       (FromV8Value_string e (arg args 2))
       (FromV8Value_string e (arg args 3))
       (FromV8Value_string e (arg args 4))"
| "native_args e showOpenDialog args =
     OpenDialog (FromV8Value_NativeWindow (arg args 3))
       (FromV8Value_string e (arg args 0))
       (FromV8Value_FilePath e (arg args 1))
       (FromV8Value_int e (arg args 2))"
| "native_args e showSaveDialog args =
     SaveDialog (FromV8Value_NativeWindow (arg args 2))
       (FromV8Value_string e (arg args 0))
       (FromV8Value_FilePath e (arg args 1))"

text \<open>The result of the synchronous primitive of a dialog.\<close>

fun native_sync_result :: "env \<Rightarrow> dialog \<Rightarrow> native_result" where
  "native_sync_result e (MessageBox nw ty buttons title message detail) =
     Chosen (atom_ShowMessageBox e nw ty buttons title message detail)"
| "native_sync_result e (OpenDialog nw title path properties) =
     (case file_dialog_ShowOpenDialog e nw title path properties of
        (ok, paths) \<Rightarrow> Paths ok paths)"
| "native_sync_result e (SaveDialog nw title path) =
     (case file_dialog_ShowSaveDialog e nw title path of
        (ok, p) \<Rightarrow> Path ok p)"

text \<open>A result of the kind the dialog of an operation produces.\<close>

fun result_of :: "operation \<Rightarrow> native_result \<Rightarrow> bool" where
  "result_of showMessageBox (Chosen code) = True"
| "result_of showOpenDialog (Paths ok paths) = True"
| "result_of showSaveDialog (Path ok path) = True"
| "result_of op r = False"

text \<open>The success flag of a result; a message box has none and always succeeds.\<close>

fun succeeded :: "native_result \<Rightarrow> bool" where
  "succeeded (Chosen code) = True"
| "succeeded (Paths ok paths) = ok"
| "succeeded (Path ok path) = ok"

text \<open>The completion handler an entry point binds to its callback handle.\<close>

fun handler :: "operation \<Rightarrow> persistent \<Rightarrow> completion" where
  "handler showMessageBox callback = Bind_CallV8Function_int callback"
| "handler showOpenDialog callback = Bind_CallV8Function2_paths callback"
| "handler showSaveDialog callback = Bind_CallV8Function2_path callback"

text \<open>
  The script value of a result: the payload coerced with \<open>ToV8Value\<close> when the
  dialog succeeded, and \<open>undefined\<close> otherwise.
\<close>

fun coerced :: "env \<Rightarrow> native_result \<Rightarrow> v8_value" where
  "coerced e (Chosen code) = ToV8Value_int code"
| "coerced e (Paths ok paths) = ToV8Value_paths e paths"
| "coerced e (Path ok path) = ToV8Value_path e path"

definition result_value :: "env \<Rightarrow> native_result \<Rightarrow> v8_value" where
  "result_value e r = (if succeeded r then coerced e r else Undefined)"

subsection \<open>Round trip of a path\<close>

definition path_round_trip :: "env \<Rightarrow> v8_value \<Rightarrow> v8_value" where
  "path_round_trip e v = ToV8Value_path e (FromV8Value_FilePath e v)"

subsection \<open>Sample collaborators and inputs\<close>

text \<open>
  An engine and a native layer to run the entry points on: the message box answers with
  button 0, the open dialog is cancelled, the save dialog returns a path.
\<close>

fun sample_ToString :: "v8_value \<Rightarrow> string" where
  "sample_ToString Undefined = ''undefined''"
| "sample_ToString Null = ''null''"
| "sample_ToString (Boolean b) = (if b then ''true'' else ''false'')"
| "sample_ToString v = ''[object Object]''"

definition sample_env :: env where
  "sample_env =
     \<lparr>ToString = sample_ToString,
      FromUtf8 = (\<lambda>bytes. bytes),
      ToInteger = (\<lambda>v. 0),
      atom_ShowMessageBox = (\<lambda>nw ty buttons title message detail. 0),
      file_dialog_ShowOpenDialog = (\<lambda>nw title path properties. (False, [])),
      file_dialog_ShowSaveDialog = (\<lambda>nw title path. (True, FilePath ''/tmp/x/out.txt''))\<rparr>"

text \<open>The same, with a message box that is dismissed (\<open>-1\<close>).\<close>

definition dismissing_env :: env where
  "dismissing_env =
     sample_env\<lparr>atom_ShowMessageBox := (\<lambda>nw ty buttons title message detail. - 1)\<rparr>"

text \<open>The same, with a save dialog that is cancelled.\<close>

definition cancelling_env :: env where
  "cancelling_env =
     sample_env\<lparr>file_dialog_ShowSaveDialog := (\<lambda>nw title path. (False, FilePath []))\<rparr>"

definition empty_world :: world where
  "empty_world = \<lparr>handles = [], shown = [], pending = [], called = []\<rparr>"

section \<open>Properties\<close>

subsection \<open>The conversions\<close>

lemma Set_paths_take_drop:
  "i \<le> length paths \<Longrightarrow> length result = length paths \<Longrightarrow>
   Set_paths e i paths result = take i result @ map (ToV8Value_path e) (drop i paths)"
proof (induction e i paths result rule: Set_paths.induct)
  case (1 e i paths result)
  show ?case
  proof (cases "i < length paths")
    case True
    have "Set_paths e i paths result =
          Set_paths e (Suc i) paths (result[i := ToV8Value_path e (paths ! i)])"
      using True by (subst Set_paths.simps) simp
    also have "\<dots> = take (Suc i) (result[i := ToV8Value_path e (paths ! i)])
                     @ map (ToV8Value_path e) (drop (Suc i) paths)"
      using True "1.prems" by (intro "1.IH") simp_all
    also have "\<dots> = take i result @ map (ToV8Value_path e) (drop i paths)"
      using True "1.prems"
      by (simp add: take_Suc_conv_app_nth Cons_nth_drop_Suc [symmetric])
    finally show ?thesis .
  next
    case False
    then show ?thesis
      using "1.prems" by (subst Set_paths.simps) simp
  qed
qed

lemma Set_paths_map:
  "Set_paths e 0 paths (replicate (length paths) Undefined) = map (ToV8Value_path e) paths"
  by (simp add: Set_paths_take_drop)

lemma ToV8Value_paths_map: "ToV8Value_paths e paths = Array (map (ToV8Value_path e) paths)"
  by (simp add: ToV8Value_paths_def Set_paths_map)

lemma callback_not_function:
  "\<not> IsFunction v \<Longrightarrow> FromV8Value_callback v w = (None, w)"
  by (cases v) simp_all

lemma IsFunction_iff: "IsFunction v \<longleftrightarrow> (\<exists>f. v = Function f)"
  by (cases v) simp_all

lemma NativeWindow_absent:
  assumes "\<forall>nw. v \<noteq> Object (Some (Window (Some nw)))"
  shows "FromV8Value_NativeWindow v = None"
proof (cases v)
  case (Object x)
  show ?thesis
  proof (cases x)
    case None
    with Object show ?thesis by (simp add: FromV8Value_NativeWindow_def)
  next
    case (Some wrapper)
    obtain nw' where wrapper: "wrapper = Window nw'" by (cases wrapper)
    from assms Object Some wrapper have "nw' = None" by (cases nw') simp_all
    with Object Some wrapper show ?thesis by (simp add: FromV8Value_NativeWindow_def)
  qed
qed (simp_all add: FromV8Value_NativeWindow_def)

lemma sint_Integer: "sint (scast (c :: cint) :: int64) = sint c"
  by (simp add: sint_up_scast is_up)

lemma path_round_trip_String:
  "path_round_trip e (String s) = String_New e (takeWhile (\<lambda>c. c \<noteq> CHR 0x00) s)"
  by (simp add: path_round_trip_def ToV8Value_path_def FromV8Value_FilePath_def
      FromV8Value_string_def Utf8Value_def)

subsection \<open>What the entry points compute\<close>

text \<open>
  Past its shape checks an entry point has two behaviours: it runs the synchronous
  primitive when the callback argument is not a function, and it hands a completion
  handler to the asynchronous primitive when it is.
\<close>

lemma Initialize_sync:
  assumes "validates op args" and "\<not> IsFunction (arg args (callback_index op))"
  shows "Initialize op e args w =
     (Inr (result_value e (native_sync_result e (native_args e op args))),
      native_sync (native_args e op args) (native_sync_result e (native_args e op args)) w)"
proof (cases op)
  case showMessageBox
  then show ?thesis
    using assms
    by (simp add: ShowMessageBox_def callback_not_function IsEmpty_def result_value_def
        ToV8Value_int_def Let_def)
next
  case showOpenDialog
  then show ?thesis
    using assms
    by (simp add: ShowOpenDialog_def callback_not_function IsEmpty_def result_value_def
        ToV8Value_paths_def Let_def split: prod.splits)
next
  case showSaveDialog
  then show ?thesis
    using assms
    by (simp add: ShowSaveDialog_def callback_not_function IsEmpty_def result_value_def
        Let_def split: prod.splits)
qed

lemma Initialize_async:
  assumes "validates op args" and "arg args (callback_index op) = Function f"
  shows "Initialize op e args w =
     (Inr Undefined,
      native_async (native_args e op args) (handler op (Some f)) (w\<lparr>handles := f # handles w\<rparr>))"
  using assms
  by (cases op)
    (simp_all add: ShowMessageBox_def ShowOpenDialog_def ShowSaveDialog_def
      Persistent_New_def IsEmpty_def Let_def)

lemma native_args_cong:
  assumes "\<forall>i. i \<noteq> callback_index op \<longrightarrow> arg a i = arg b i"
  shows "native_args e op a = native_args e op b" and "validates op a = validates op b"
  using assms by (cases op; simp)+

lemma result_of_native_sync_result: "result_of op (native_sync_result e (native_args e op args))"
  by (cases op) (simp_all split: prod.splits)

subsection \<open>What a completion does\<close>

lemma Run_handler:
  assumes "result_of op r"
  shows "Run e (handler op (Some f)) r w =
     Some (w\<lparr>called := called w @ [(f, [result_value e r])],
              handles := remove1 f (handles w)\<rparr>)"
  using assms
  by (cases op; cases r)
    (simp_all add: CallV8Function_def CallV8Function2_def Call_def Dispose_def
      result_value_def ToV8Value_void_def)

lemma complete_native_async:
  "complete e (length (pending w)) r (native_async d c w) =
     Run e c r (w\<lparr>shown := shown w @ [Async d]\<rparr>)"
  by (simp add: complete_def native_async_def)

lemma complete_after_async:
  assumes "result_of op r"
  shows "complete e (length (pending w)) r
           (native_async d (handler op (Some f)) (w\<lparr>handles := f # handles w\<rparr>)) =
         Some (w\<lparr>shown := shown w @ [Async d], called := called w @ [(f, [result_value e r])]\<rparr>)"
proof -
  have "complete e (length (pending w)) r
           (native_async d (handler op (Some f)) (w\<lparr>handles := f # handles w\<rparr>)) =
        Run e (handler op (Some f)) r (w\<lparr>handles := f # handles w, shown := shown w @ [Async d]\<rparr>)"
    using complete_native_async [where w = "w\<lparr>handles := f # handles w\<rparr>" and r = r and d = d and e = e] by simp
  then show ?thesis
    by (simp add: Run_handler [OF assms])
qed


text \<open>The definitions unfolded to run the entry points on concrete arguments.\<close>

lemmas evaluation =
  arg_def ShowMessageBox_def ShowOpenDialog_def ShowSaveDialog_def ThrowTypeError_def
  FromV8Value_NativeWindow_def FromV8Value_string_def FromV8Value_int_def
  FromV8Value_FilePath_def Utf8Value_def IntegerValue_def Persistent_New_def IsEmpty_def
  native_sync_def native_async_def Integer_New_def ToV8Value_path_def String_New_def
  sample_env_def dismissing_env_def cancelling_env_def empty_world_def Let_def

section \<open>The claims\<close>

text \<open>
  C1 (mode equivalence). For each of the three operations and every argument list that
  passes the shape checks, let \<open>d\<close> be the native arguments coerced from the list and
  \<open>r\<close> the result of the synchronous primitive on \<open>d\<close>. The call without a callback
  calls that primitive on \<open>d\<close> and returns the script value of \<open>r\<close>. The call with
  the same arguments and a callback \<open>f\<close> calls the asynchronous primitive on the same
  \<open>d\<close>, and when the native layer completes it with the same \<open>r\<close>, \<open>f\<close> receives
  the same script value. (The coercions run before the mode is chosen, so both calls
  coerce alike.)
\<close>

theorem mode_equivalence:
  assumes "validates op args_sync"
    and "\<forall>i. i \<noteq> callback_index op \<longrightarrow> arg args_async i = arg args_sync i"
    and "\<not> IsFunction (arg args_sync (callback_index op))"
    and "arg args_async (callback_index op) = Function f"
    and "d = native_args e op args_sync"
    and "r = native_sync_result e d"
  shows "Initialize op e args_sync w = (Inr (result_value e r), native_sync d r w) \<and>
      native_args e op args_async = d \<and>
      (\<exists>w_a w_c.
         Initialize op e args_async w = (Inr Undefined, w_a) \<and>
         shown w_a = shown w @ [Async d] \<and>
         complete e (length (pending w)) r w_a = Some w_c \<and>
         called w_c = called w @ [(f, [result_value e r])])"
proof -
  have same: "native_args e op args_async = d" and valid: "validates op args_async"
    using native_args_cong [OF assms(2)] assms(1,5) by simp_all
  have s: "Initialize op e args_sync w = (Inr (result_value e r), native_sync d r w)"
    using Initialize_sync [OF assms(1) assms(3)] assms(5,6) by simp
  have a: "Initialize op e args_async w =
      (Inr Undefined, native_async d (handler op (Some f)) (w\<lparr>handles := f # handles w\<rparr>))"
    using Initialize_async [OF valid assms(4)] same by simp
  have "result_of op r"
    using result_of_native_sync_result [of op e args_sync] assms(5,6) by simp
  then have c: "complete e (length (pending w)) r
      (native_async d (handler op (Some f)) (w\<lparr>handles := f # handles w\<rparr>)) =
      Some (w\<lparr>shown := shown w @ [Async d],
               called := called w @ [(f, [result_value e r])]\<rparr>)"
    by (rule complete_after_async)
  show ?thesis
    using s same a c by (simp add: native_async_def)
qed

text \<open>
  The save dialog of the sample native layer, without and with a callback: the call
  returns the path, and the callback receives the same path.
\<close>

theorem mode_equivalence_witness:
  "validates showSaveDialog [String ''Save'', String ''/tmp/x'']
   \<and> Initialize showSaveDialog sample_env [String ''Save'', String ''/tmp/x''] empty_world
       = (Inr (String ''/tmp/x/out.txt''),
          native_sync (SaveDialog None ''Save'' (FilePath ''/tmp/x''))
            (Path True (FilePath ''/tmp/x/out.txt'')) empty_world)
   \<and> (\<exists>w_a w_c.
        Initialize showSaveDialog sample_env
          [String ''Save'', String ''/tmp/x'', Undefined, Function 7] empty_world
          = (Inr Undefined, w_a) \<and>
        shown w_a = shown empty_world @ [Async (SaveDialog None ''Save'' (FilePath ''/tmp/x''))] \<and>
        complete sample_env (length (pending empty_world))
          (Path True (FilePath ''/tmp/x/out.txt'')) w_a = Some w_c \<and>
        called w_c = called empty_world @ [(7, [String ''/tmp/x/out.txt''])])"
proof -
  have same: "\<forall>i. i \<noteq> callback_index showSaveDialog \<longrightarrow>
      arg [String ''Save'', String ''/tmp/x'', Undefined, Function 7] i =
      arg [String ''Save'', String ''/tmp/x''] i"
    by (auto simp: arg_def nth_Cons' numeral_eq_Suc less_Suc_eq)
  show ?thesis
    using mode_equivalence [of showSaveDialog "[String ''Save'', String ''/tmp/x'']"
        "[String ''Save'', String ''/tmp/x'', Undefined, Function 7]" 7
        "SaveDialog None ''Save'' (FilePath ''/tmp/x'')" sample_env
        "Path True (FilePath ''/tmp/x/out.txt'')" empty_world, OF _ same]
    by (simp add: evaluation result_value_def)
qed



text \<open>
  C3 (shape errors). If a required positional argument fails its shape check (for
  \<open>showMessageBox\<close>: a \<open>buttons\<close> argument that is not an array), the call raises the
  type error and the world is unchanged: no native primitive was called, no callback
  handle was created or invoked, no handler is pending.
\<close>

theorem bad_shape_raises:
  assumes "\<not> validates op args"
  shows "Initialize op e args w = (Inl (TypeError ''Bad argument''), w)"
  using assms
  by (cases op)
    (auto simp: ShowMessageBox_def ShowOpenDialog_def ShowSaveDialog_def ThrowTypeError_def)

text \<open>A message box whose \<open>buttons\<close> argument is a string.\<close>

theorem bad_shape_raises_witness:
  "\<not> validates showMessageBox [Number 0, String ''OK'', String ''T'', String ''M'', String ''D'']
   \<and> Initialize showMessageBox sample_env
        [Number 0, String ''OK'', String ''T'', String ''M'', String ''D''] empty_world
      = (Inl (TypeError ''Bad argument''), empty_world)"
  using bad_shape_raises [of showMessageBox
      "[Number 0, String ''OK'', String ''T'', String ''M'', String ''D'']" sample_env empty_world]
  by (simp add: arg_def)

text \<open>
  C4 (coercion degradation). A value that is not an object carrying a native window is
  coerced to the absent window handle; a value that is not a function is coerced to the
  empty callback handle, leaving the world as it is; whatever the window and callback
  arguments are, a call that passes the shape checks returns a value and raises nothing;
  and with a callback argument that is not a function it takes the synchronous path.
\<close>

theorem coercion_degrades:
  shows "((\<forall>nw. v \<noteq> Object (Some (Window (Some nw)))) \<longrightarrow> FromV8Value_NativeWindow v = None)
       \<and> (\<not> IsFunction v \<longrightarrow> (\<exists>callback. FromV8Value_callback v w = (callback, w) \<and> IsEmpty callback))
       \<and> (validates op args \<longrightarrow> (\<exists>res w'. Initialize op e args w = (Inr res, w')))
       \<and> (validates op args \<and> \<not> IsFunction (arg args (callback_index op)) \<longrightarrow>
            (\<exists>res d r w'. Initialize op e args w = (Inr res, w') \<and> shown w' = shown w @ [Sync d r]))"
proof (intro conjI impI)
  assume "\<forall>nw. v \<noteq> Object (Some (Window (Some nw)))"
  then show "FromV8Value_NativeWindow v = None" by (rule NativeWindow_absent)
next
  assume "\<not> IsFunction v"
  then show "\<exists>callback. FromV8Value_callback v w = (callback, w) \<and> IsEmpty callback"
    by (simp add: callback_not_function IsEmpty_def)
next
  assume valid: "validates op args"
  show "\<exists>res w'. Initialize op e args w = (Inr res, w')"
  proof (cases "IsFunction (arg args (callback_index op))")
    case True
    then obtain f where "arg args (callback_index op) = Function f"
      by (auto simp: IsFunction_iff)
    from Initialize_async [OF valid this] show ?thesis by blast
  next
    case False
    from Initialize_sync [OF valid this] show ?thesis by blast
  qed
next
  assume "validates op args \<and> \<not> IsFunction (arg args (callback_index op))"
  then have "validates op args" and "\<not> IsFunction (arg args (callback_index op))"
    by simp_all
  from Initialize_sync [OF this]
  show "\<exists>res d r w'. Initialize op e args w = (Inr res, w') \<and> shown w' = shown w @ [Sync d r]"
    by (simp add: native_sync_def)
qed

text \<open>A save dialog called with a number as window and a plain object as callback.\<close>

theorem coercion_degrades_witness:
  "FromV8Value_NativeWindow (Object None) = None
   \<and> (\<exists>callback. FromV8Value_callback (Object None) empty_world = (callback, empty_world) \<and>
         IsEmpty callback)
   \<and> validates showSaveDialog [String ''Save'', String ''/tmp/x'', Number 3, Object None]
   \<and> (\<exists>res d r w'. Initialize showSaveDialog sample_env
         [String ''Save'', String ''/tmp/x'', Number 3, Object None] empty_world = (Inr res, w') \<and>
         shown w' = shown empty_world @ [Sync d r])"
  using coercion_degrades [of "Object None" empty_world showSaveDialog
      "[String ''Save'', String ''/tmp/x'', Number 3, Object None]" sample_env]
  by (simp add: arg_def)

text \<open>
  C5 (immediate return). On the asynchronous path (the callback argument is a function)
  every operation returns \<open>undefined\<close> at once: the asynchronous primitive has been
  called, its completion handler is still pending and the callback has not been invoked.
\<close>

theorem async_returns_undefined:
  assumes "validates op args" and "arg args (callback_index op) = Function f"
  shows "\<exists>c w'. Initialize op e args w = (Inr Undefined, w') \<and>
           shown w' = shown w @ [Async (native_args e op args)] \<and>
           pending w' = pending w @ [c] \<and> called w' = called w"
  using Initialize_async [OF assms] by (simp add: native_async_def)

text \<open>The open dialog called with a callback.\<close>

theorem async_returns_undefined_witness:
  "validates showOpenDialog [String ''Open'', String [], Number 0, Undefined, Function 7]
   \<and> (\<exists>c w'. Initialize showOpenDialog sample_env
          [String ''Open'', String [], Number 0, Undefined, Function 7] empty_world
          = (Inr Undefined, w') \<and>
        shown w' = shown empty_world @
          [Async (native_args sample_env showOpenDialog
             [String ''Open'', String [], Number 0, Undefined, Function 7])] \<and>
        pending w' = pending empty_world @ [c] \<and> called w' = called empty_world)"
  using async_returns_undefined [of showOpenDialog
      "[String ''Open'', String [], Number 0, Undefined, Function 7]" 7 sample_env empty_world]
  by (simp add: arg_def)

text \<open>
  C6 (cancellation, synchronous). For \<open>showOpenDialog\<close> and \<open>showSaveDialog\<close>, on
  arguments that pass the shape checks and with a callback argument that is not a
  function: when the synchronous primitive, called on the coerced arguments, signals no
  selection (success flag false), the call has called that primitive and returns
  \<open>undefined\<close>; it raises nothing.
\<close>

theorem sync_cancel_returns_undefined:
  assumes "op = showOpenDialog \<or> op = showSaveDialog"
    and "validates op args"
    and "\<not> IsFunction (arg args (callback_index op))"
    and "\<not> succeeded (native_sync_result e (native_args e op args))"
  shows "Initialize op e args w =
     (Inr Undefined,
      native_sync (native_args e op args) (native_sync_result e (native_args e op args)) w)"
  using Initialize_sync [OF assms(2,3), of e w] assms(4)
  by (simp add: result_value_def)

text \<open>The cancelled open dialog and the cancelled save dialog, called without a callback.\<close>

theorem sync_cancel_returns_undefined_witness:
  "validates showOpenDialog [String ''Open'', String [], Number 0]
   \<and> \<not> fst (file_dialog_ShowOpenDialog sample_env None ''Open'' (FilePath []) 0)
   \<and> Initialize showOpenDialog sample_env [String ''Open'', String [], Number 0] empty_world
       = (Inr Undefined,
          native_sync (OpenDialog None ''Open'' (FilePath []) 0) (Paths False []) empty_world)
   \<and> validates showSaveDialog [String ''Save'', String ''/tmp/x'']
   \<and> \<not> fst (file_dialog_ShowSaveDialog cancelling_env None ''Save'' (FilePath ''/tmp/x''))
   \<and> Initialize showSaveDialog cancelling_env [String ''Save'', String ''/tmp/x''] empty_world
       = (Inr Undefined,
          native_sync (SaveDialog None ''Save'' (FilePath ''/tmp/x'')) (Path False (FilePath []))
            empty_world)"
  using
    sync_cancel_returns_undefined [of showOpenDialog "[String ''Open'', String [], Number 0]"
      sample_env empty_world]
    sync_cancel_returns_undefined [of showSaveDialog "[String ''Save'', String ''/tmp/x'']"
      cancelling_env empty_world]
  by (simp add: evaluation)

text \<open>
  C7 (cancellation, asynchronous). For \<open>showOpenDialog\<close> and \<open>showSaveDialog\<close> called
  with a callback \<open>f\<close>: when the native layer runs the completion handler, \<open>f\<close> is
  invoked exactly once, with \<open>undefined\<close> if the success flag is false and with the
  coerced native result if it is true; its handle is disposed.
\<close>

theorem async_delivers_result_or_undefined:
  assumes "op = showOpenDialog \<or> op = showSaveDialog"
    and "validates op args"
    and "arg args (callback_index op) = Function f"
    and "result_of op r"
  shows "\<exists>w' w''. Initialize op e args w = (Inr Undefined, w') \<and>
           complete e (length (pending w)) r w' = Some w'' \<and>
           called w'' = called w @ [(f, [if succeeded r then coerced e r else Undefined])] \<and>
           handles w'' = handles w"
  using Initialize_async [OF assms(2,3), of e w]
    complete_after_async [OF assms(4), where w = w and d = "native_args e op args" and f = f and e = e]
  by (simp add: result_value_def)

text \<open>
  The open dialog called with a callback and completed as cancelled, and the save dialog
  called with a callback and completed with a path.
\<close>

theorem async_delivers_result_or_undefined_witness:
  "validates showOpenDialog [String ''Open'', String [], Number 0, Undefined, Function 7]
   \<and> (\<exists>w' w''. Initialize showOpenDialog sample_env
          [String ''Open'', String [], Number 0, Undefined, Function 7] empty_world
          = (Inr Undefined, w') \<and>
        complete sample_env (length (pending empty_world)) (Paths False []) w' = Some w'' \<and>
        called w'' = called empty_world @ [(7, [Undefined])] \<and>
        handles w'' = handles empty_world)
   \<and> validates showSaveDialog [String ''Save'', String ''/tmp/x'', Undefined, Function 7]
   \<and> (\<exists>w' w''. Initialize showSaveDialog sample_env
          [String ''Save'', String ''/tmp/x'', Undefined, Function 7] empty_world
          = (Inr Undefined, w') \<and>
        complete sample_env (length (pending empty_world)) (Path True (FilePath ''/tmp/x/out.txt'')) w'
          = Some w'' \<and>
        called w'' = called empty_world @ [(7, [String ''/tmp/x/out.txt''])] \<and>
        handles w'' = handles empty_world)"
  using
    async_delivers_result_or_undefined [of showOpenDialog
      "[String ''Open'', String [], Number 0, Undefined, Function 7]" 7 "Paths False []"
      sample_env empty_world]
    async_delivers_result_or_undefined [of showSaveDialog
      "[String ''Save'', String ''/tmp/x'', Undefined, Function 7]" 7
      "Path True (FilePath ''/tmp/x/out.txt'')" sample_env empty_world]
  by (simp add: arg_def ToV8Value_path_def String_New_def sample_env_def)

text \<open>
  C8 (round trip of a path). The claim asks that every script string comes back
  byte-identical from the string-to-native-path coercion followed by the
  native-path-to-string coercion. The code does not do that for a string with an embedded
  NUL character: \<open>operator std::string\<close> drops the length that \<open>Utf8Value\<close> holds,
  so the path ends before the NUL, while \<open>ToV8Value(const base::FilePath&)\<close> passes
  data and size. The strings \<open>a\<close>, NUL, \<open>b\<close> and \<open>a\<close> have the same round trip, in
  every engine; in the sample engine it is \<open>a\<close>.
\<close>

theorem path_round_trip_cut_at_NUL:
  "path_round_trip e (String [CHR ''a'', CHR 0x00, CHR ''b'']) = path_round_trip e (String ''a'')
   \<and> path_round_trip sample_env (String [CHR ''a'', CHR 0x00, CHR ''b'']) = String ''a''
   \<and> String ''a'' \<noteq> String [CHR ''a'', CHR 0x00, CHR ''b'']"
  by (simp add: path_round_trip_String String_New_def sample_env_def)

text \<open>
  C9 (message box result). On the synchronous path (arguments that pass the shape checks,
  a callback argument that is not a function) \<open>showMessageBox\<close> calls the native
  primitive on the coerced arguments and returns the number whose value is the integer
  \<open>chosen\<close> that this call produced, whatever it is (a button index, or a dismissal
  value such as \<open>-1\<close>); with native result 0 it returns 0.
\<close>

theorem message_box_sync_returns_native_integer:
  assumes "validates showMessageBox args" and "\<not> IsFunction (arg args 6)"
    and "chosen = atom_ShowMessageBox e
           (FromV8Value_NativeWindow (arg args 5))
           (ucast (IntegerValue e (arg args 0)))
           (map (FromV8Value_string e) (Array_elements (arg args 1)))
           (FromV8Value_string e (arg args 2))
           (FromV8Value_string e (arg args 3))
           (FromV8Value_string e (arg args 4))"
  shows "\<exists>n. ShowMessageBox e args w =
           (Inr (Number n),
            native_sync
              (MessageBox (FromV8Value_NativeWindow (arg args 5))
                 (ucast (IntegerValue e (arg args 0)))
                 (map (FromV8Value_string e) (Array_elements (arg args 1)))
                 (FromV8Value_string e (arg args 2))
                 (FromV8Value_string e (arg args 3))
                 (FromV8Value_string e (arg args 4)))
              (Chosen chosen) w) \<and>
         sint n = sint chosen \<and> (chosen = 0 \<longrightarrow> n = 0)"
proof -
  have "\<not> IsFunction (arg args (callback_index showMessageBox))"
    using assms(2) by simp
  from Initialize_sync [OF assms(1) this, of e w] assms(3) show ?thesis
    by (simp add: result_value_def ToV8Value_int_def Integer_New_def sint_Integer)
qed

text \<open>The message box answered with button 0, and the dismissed one.\<close>

theorem message_box_sync_returns_native_integer_witness:
  "validates showMessageBox
     [Number 0, Array [String ''OK'', String ''Cancel''], String ''T'', String ''M'', String ''D'']
   \<and> (\<exists>n. ShowMessageBox sample_env
          [Number 0, Array [String ''OK'', String ''Cancel''], String ''T'', String ''M'',
           String ''D''] empty_world =
          (Inr (Number n),
           native_sync (MessageBox None 0 [''OK'', ''Cancel''] ''T'' ''M'' ''D'') (Chosen 0)
             empty_world) \<and> n = 0)
   \<and> (\<exists>n. ShowMessageBox dismissing_env
          [Number 0, Array [String ''OK'', String ''Cancel''], String ''T'', String ''M'',
           String ''D''] empty_world =
          (Inr (Number n),
           native_sync (MessageBox None 0 [''OK'', ''Cancel''] ''T'' ''M'' ''D'') (Chosen (- 1))
             empty_world) \<and> sint n = - 1)"
  using
    message_box_sync_returns_native_integer [of
      "[Number 0, Array [String ''OK'', String ''Cancel''], String ''T'', String ''M'',
        String ''D'']" 0 sample_env empty_world]
    message_box_sync_returns_native_integer [of
      "[Number 0, Array [String ''OK'', String ''Cancel''], String ''T'', String ''M'',
        String ''D'']" "- 1" dismissing_env empty_world]
  by (simp add: evaluation)

text \<open>
  C10 (button elements). \<open>showMessageBox\<close> checks only that \<open>buttons\<close> is an array,
  and passes the native primitive what \<open>operator std::string\<close> makes of each element.
  That is not always the element's UTF-8 string form, as the claim has it: the operator
  drops the length (as in C8), so a button label with an embedded NUL character reaches
  the native primitive cut before the NUL. Here the label \<open>a\<close>, NUL, \<open>b\<close> arrives as
  \<open>a\<close>.
\<close>

theorem buttons_cut_at_NUL:
  "ShowMessageBox sample_env
     [Number 0, Array [String [CHR ''a'', CHR 0x00, CHR ''b'']], String ''T'', String ''M'',
      String ''D''] empty_world
   = (Inr (Number 0),
      native_sync (MessageBox None 0 [''a''] ''T'' ''M'' ''D'') (Chosen 0) empty_world)"
  by (simp add: evaluation)

text \<open>The native call that this message box made: one button, labelled \<open>a\<close>.\<close>

theorem buttons_cut_at_NUL_witness:
  "shown (snd (ShowMessageBox sample_env
     [Number 0, Array [String [CHR ''a'', CHR 0x00, CHR ''b'']], String ''T'', String ''M'',
      String ''D''] empty_world))
   = [Sync (MessageBox None 0 [''a''] ''T'' ''M'' ''D'') (Chosen 0)]"
  using buttons_cut_at_NUL by (simp add: native_sync_def empty_world_def)

end
